theory Spec2Isabelle
  imports Complex_Main
begin

section \<open>Values and failures of the formula evaluator\<close>

text \<open>
  The embedding follows \<^verbatim>\<open>src/gnumeric/expression_evaluation.py\<close>. The seven
  members of the enumeration \<^verbatim>\<open>EvaluationError\<close> keep their names.
\<close>

datatype EvaluationError = DIV0 | VALUE | NA | NAME | NUM | REF | NULL

fun error_value :: "EvaluationError \<Rightarrow> string" where
  "error_value DIV0 = ''#DIV/0!''"
| "error_value VALUE = ''#VALUE!''"
| "error_value NA = ''#N/A''"
| "error_value NAME = ''#NAME?''"
| "error_value NUM = ''#NUM!''"
| "error_value REF = ''#REF!''"
| "error_value NULL = ''#NULL!''"

text \<open>
  Every exception the evaluator can meet is a value. \<open>ExpressionEvaluationException\<close>
  is the class of the source; the others are the Python built-in exceptions, a
  \<open>TypeError\<close> with its message because \<^verbatim>\<open>function\<close> inspects it;
  \<open>ParseError\<close> stands for the exceptions of the parser library.
\<close>

datatype exn =
    ExpressionEvaluationException EvaluationError
  | ZeroDivisionError
  | OverflowError
  | ValueError
  | KeyError
  | IndexError
  | TypeError string
  | ParseError

text \<open>
  A Python float is a binary64 number: a finite value, written by the real number it
  denotes, an infinity or a NaN. The two zeros are not told apart. A Python \<open>int\<close> is
  unbounded. \<open>bool\<close> is a subclass of \<open>int\<close>, which \<open>isinstance\<close> sees and
  \<open>type\<close> does not.
\<close>

datatype pyfloat = Fin real | PosInf | NegInf | NaN

datatype pyval = PInt int | PFloat pyfloat | PStr string | PBool bool | PNone

text \<open>
  What the interpreter does and the source does not spell out: the rounding of a real
  number to the nearest binary64 value, and the text \<open>repr\<close> gives a finite float.
\<close>

record platform =
  rnd :: "real \<Rightarrow> real"
  float_repr :: "real \<Rightarrow> string"

subsection \<open>Text helpers\<close>

definition is_upper :: "char \<Rightarrow> bool" where
  "is_upper c = (65 \<le> (of_char c :: nat) \<and> (of_char c :: nat) \<le> 90)"

definition is_lower :: "char \<Rightarrow> bool" where
  "is_lower c = (97 \<le> (of_char c :: nat) \<and> (of_char c :: nat) \<le> 122)"

definition is_letter :: "char \<Rightarrow> bool" where
  "is_letter c = (is_upper c \<or> is_lower c)"

definition is_digit :: "char \<Rightarrow> bool" where
  "is_digit c = (48 \<le> (of_char c :: nat) \<and> (of_char c :: nat) \<le> 57)"

text \<open>
  A text is a string of the characters with the code points 0 to 255. Among them
  \<open>str.lower\<close> changes the upper-case letters only: the 26 letters from \<open>A\<close> (65)
  to \<open>Z\<close> (90) and the 30 accented letters from 192 to 214 and from 216 to 222 (215
  is the multiplication sign), each to its lower-case letter, 32 above it.
\<close>

definition has_lower :: "char \<Rightarrow> bool" where
  "has_lower c =
     (let n = (of_char c :: nat)
      in (65 \<le> n \<and> n \<le> 90) \<or> (192 \<le> n \<and> n \<le> 214) \<or> (216 \<le> n \<and> n \<le> 222))"

definition lower_chr :: "char \<Rightarrow> char" where
  "lower_chr c = (if has_lower c then char_of ((of_char c :: nat) + 32) else c)"

text \<open>\<open>str.lower\<close>.\<close>

definition lower :: "string \<Rightarrow> string" where
  "lower s = map lower_chr s"

text \<open>The order of Python strings: lexicographic, by code point.\<close>

fun str_lt :: "string \<Rightarrow> string \<Rightarrow> bool" where
  "str_lt [] [] = False"
| "str_lt [] (y # ys) = True"
| "str_lt (x # xs) [] = False"
| "str_lt (x # xs) (y # ys) =
     (if (of_char x :: nat) < of_char y then True
      else if (of_char y :: nat) < of_char x then False
      else str_lt xs ys)"

definition str_le :: "string \<Rightarrow> string \<Rightarrow> bool" where
  "str_le s t = (s = t \<or> str_lt s t)"

fun startswith :: "string \<Rightarrow> string \<Rightarrow> bool" where
  "startswith s [] = True"
| "startswith [] (p # ps) = False"
| "startswith (c # cs) (p # ps) = (c = p \<and> startswith cs ps)"

definition endswith :: "string \<Rightarrow> string \<Rightarrow> bool" where
  "endswith s p = startswith (rev s) (rev p)"

text \<open>\<open>p in s\<close> for two strings.\<close>

fun contains :: "string \<Rightarrow> string \<Rightarrow> bool" where
  "contains [] p = (p = [])"
| "contains (c # cs) p = (startswith (c # cs) p \<or> contains cs p)"

subsection \<open>Decimal text of integers\<close>

definition digit_chr :: "nat \<Rightarrow> char" where
  "digit_chr d = char_of (48 + d)"

definition digit_val :: "char \<Rightarrow> int" where
  "digit_val c = of_char c - 48"

function str_nat :: "nat \<Rightarrow> string" where
  "str_nat n = (if n < 10 then [digit_chr n] else str_nat (n div 10) @ [digit_chr (n mod 10)])"
  by pat_completeness auto
termination
  by (relation "measure id") auto

declare str_nat.simps [simp del]

text \<open>\<open>str(n)\<close> for an \<open>int\<close>.\<close>

definition str_int :: "int \<Rightarrow> string" where
  "str_int i = (if i < 0 then CHR ''-'' # str_nat (nat (- i)) else str_nat (nat i))"

definition int_of_digits :: "string \<Rightarrow> int" where
  "int_of_digits ds = foldl (\<lambda>acc c. 10 * acc + digit_val c) 0 ds"

subsection \<open>Comparison of Python values\<close>

fun float_eq :: "pyfloat \<Rightarrow> pyfloat \<Rightarrow> bool" where
  "float_eq NaN y = False"
| "float_eq x NaN = False"
| "float_eq (Fin x) (Fin y) = (x = y)"
| "float_eq PosInf PosInf = True"
| "float_eq NegInf NegInf = True"
| "float_eq x y = False"

fun float_lt :: "pyfloat \<Rightarrow> pyfloat \<Rightarrow> bool" where
  "float_lt NaN y = False"
| "float_lt x NaN = False"
| "float_lt (Fin x) (Fin y) = (x < y)"
| "float_lt NegInf NegInf = False"
| "float_lt NegInf y = True"
| "float_lt x PosInf = (x \<noteq> PosInf)"
| "float_lt x y = False"

fun float_le :: "pyfloat \<Rightarrow> pyfloat \<Rightarrow> bool" where
  "float_le NaN y = False"
| "float_le x NaN = False"
| "float_le (Fin x) (Fin y) = (x \<le> y)"
| "float_le NegInf y = True"
| "float_le x PosInf = True"
| "float_le x y = False"

text \<open>
  The number a value stands for in a comparison or in arithmetic: an \<open>int\<close> is
  compared with a float by its exact value, a \<open>bool\<close> is the \<open>int\<close> 1 or 0.
\<close>

fun as_number :: "pyval \<Rightarrow> pyfloat option" where
  "as_number (PInt i) = Some (Fin (of_int i))"
| "as_number (PFloat f) = Some f"
| "as_number (PBool b) = Some (Fin (if b then 1 else 0))"
| "as_number (PStr s) = None"
| "as_number PNone = None"

fun type_name :: "pyval \<Rightarrow> string" where
  "type_name (PInt i) = ''int''"
| "type_name (PFloat f) = ''float''"
| "type_name (PStr s) = ''str''"
| "type_name (PBool b) = ''bool''"
| "type_name PNone = ''NoneType''"

text \<open>\<open>a == b\<close>.\<close>

definition py_eq :: "pyval \<Rightarrow> pyval \<Rightarrow> bool" where
  "py_eq a b =
     (case (as_number a, as_number b) of
        (Some x, Some y) \<Rightarrow> float_eq x y
      | _ \<Rightarrow> (case (a, b) of
                (PStr s, PStr t) \<Rightarrow> s = t
              | (PNone, PNone) \<Rightarrow> True
              | _ \<Rightarrow> False))"

definition not_supported :: "string \<Rightarrow> pyval \<Rightarrow> pyval \<Rightarrow> exn" where
  "not_supported osym a b =
     TypeError ([CHR 0x27] @ osym @ [CHR 0x27] @ '' not supported between instances of ''
                @ [CHR 0x27] @ type_name a @ [CHR 0x27] @ '' and ''
                @ [CHR 0x27] @ type_name b @ [CHR 0x27])"

text \<open>\<open>a < b\<close> and \<open>a <= b\<close>; \<open>a > b\<close> and \<open>a >= b\<close> are these with the operands swapped.\<close>

definition py_lt :: "string \<Rightarrow> pyval \<Rightarrow> pyval \<Rightarrow> exn + bool" where
  "py_lt osym a b =
     (case (as_number a, as_number b) of
        (Some x, Some y) \<Rightarrow> Inr (float_lt x y)
      | _ \<Rightarrow> (case (a, b) of
                (PStr s, PStr t) \<Rightarrow> Inr (str_lt s t)
              | _ \<Rightarrow> Inl (not_supported osym a b)))"

definition py_le :: "string \<Rightarrow> pyval \<Rightarrow> pyval \<Rightarrow> exn + bool" where
  "py_le osym a b =
     (case (as_number a, as_number b) of
        (Some x, Some y) \<Rightarrow> Inr (float_le x y)
      | _ \<Rightarrow> (case (a, b) of
                (PStr s, PStr t) \<Rightarrow> Inr (str_le s t)
              | _ \<Rightarrow> Inl (not_supported osym a b)))"

definition py_gt :: "pyval \<Rightarrow> pyval \<Rightarrow> exn + bool" where
  "py_gt a b =
     (case py_lt ''>'' b a of Inr r \<Rightarrow> Inr r | Inl e \<Rightarrow> Inl (not_supported ''>'' a b))"

definition py_ge :: "pyval \<Rightarrow> pyval \<Rightarrow> exn + bool" where
  "py_ge a b =
     (case py_le ''>='' b a of Inr r \<Rightarrow> Inr r | Inl e \<Rightarrow> Inl (not_supported ''>='' a b))"

definition bool_result :: "exn + bool \<Rightarrow> exn + pyval" where
  "bool_result r = (case r of Inl e \<Rightarrow> Inl e | Inr t \<Rightarrow> Inr (PBool t))"

section \<open>The rule \<open>logical\<close>\<close>

text \<open>\<open>type(a) if type(a) != int else float\<close>: the types an operand can have.\<close>

datatype pytype = T_float | T_str | T_bool | T_NoneType

fun operand_type :: "pyval \<Rightarrow> pytype" where
  "operand_type (PInt i) = T_float"
| "operand_type (PFloat f) = T_float"
| "operand_type (PStr s) = T_str"
| "operand_type (PBool b) = T_bool"
| "operand_type PNone = T_NoneType"

text \<open>The dictionary \<open>type_val_mapper\<close>; a missing key raises \<open>KeyError\<close>.\<close>

fun type_val_mapper :: "pytype \<Rightarrow> int option" where
  "type_val_mapper T_float = Some 0"
| "type_val_mapper T_str = Some 50"
| "type_val_mapper T_bool = Some 100"
| "type_val_mapper T_NoneType = None"

fun lower_if_str :: "pyval \<Rightarrow> pyval" where
  "lower_if_str (PStr s) = PStr (lower s)"
| "lower_if_str v = v"

text \<open>The chain of \<open>if op == ...\<close> that ends the rule.\<close>

definition apply_logical_op :: "string \<Rightarrow> pyval \<Rightarrow> pyval \<Rightarrow> exn + pyval" where
  "apply_logical_op op a b =
     (if op = ''='' then Inr (PBool (py_eq a b))
      else if op = ''<>'' then Inr (PBool (\<not> py_eq a b))
      else if op = ''<'' then bool_result (py_lt ''<'' a b)
      else if op = ''<='' then bool_result (py_le ''<='' a b)
      else if op = ''>'' then bool_result (py_gt a b)
      else if op = ''>='' then bool_result (py_ge a b)
      else Inl ValueError)"

definition logical :: "pyval \<Rightarrow> string \<Rightarrow> pyval \<Rightarrow> exn + pyval" where
  "logical a0 op b0 =
     (let a = lower_if_str a0;
          b = lower_if_str b0;
          a_type = operand_type a;
          b_type = operand_type b
      in if a_type \<noteq> b_type then
           (case type_val_mapper a_type of
              None \<Rightarrow> Inl KeyError
            | Some x \<Rightarrow>
                (case type_val_mapper b_type of
                   None \<Rightarrow> Inl KeyError
                 | Some y \<Rightarrow> apply_logical_op op (PInt x) (PInt y)))
         else apply_logical_op op a b)"

section \<open>The rule \<open>arithmetic\<close>\<close>

text \<open>
  A real number at or beyond this bound has no nearest finite binary64 value: it
  rounds to an infinity.
\<close>

definition overflow_bound :: real where
  "overflow_bound = 2 ^ 1024 - 2 ^ 970"

definition to_double :: "platform \<Rightarrow> real \<Rightarrow> pyfloat" where
  "to_double P x =
     (if overflow_bound \<le> x then PosInf
      else if x \<le> - overflow_bound then NegInf
      else Fin (rnd P x))"

text \<open>\<open>isinstance(a, (int, float))\<close>: true of a \<open>bool\<close> as well.\<close>

fun is_number :: "pyval \<Rightarrow> bool" where
  "is_number (PInt i) = True"
| "is_number (PFloat f) = True"
| "is_number (PBool b) = True"
| "is_number (PStr s) = False"
| "is_number PNone = False"

text \<open>The value of an \<open>int\<close> or a \<open>bool\<close>.\<close>

fun int_value :: "pyval \<Rightarrow> int option" where
  "int_value (PInt i) = Some i"
| "int_value (PBool b) = Some (if b then 1 else 0)"
| "int_value v = None"

text \<open>
  The conversion of an operand to a float, which raises \<open>OverflowError\<close> for an
  \<open>int\<close> too large. An \<open>int\<close> of at most 53 bits is a float as it is; a longer one
  is rounded.
\<close>

definition to_float :: "platform \<Rightarrow> pyval \<Rightarrow> exn + pyfloat" where
  "to_float P v =
     (case v of
        PFloat f \<Rightarrow> Inr f
      | _ \<Rightarrow> (case int_value v of
                None \<Rightarrow> Inl (TypeError ''must be real number'')
              | Some i \<Rightarrow>
                  if overflow_bound \<le> \<bar>of_int i\<bar> then Inl OverflowError
                  else if \<bar>i\<bar> \<le> 2 ^ 53 then Inr (Fin (of_int i))
                  else Inr (Fin (rnd P (of_int i)))))"

fun float_sgn :: "pyfloat \<Rightarrow> int" where
  "float_sgn (Fin x) = (if x < 0 then - 1 else if x = 0 then 0 else 1)"
| "float_sgn PosInf = 1"
| "float_sgn NegInf = - 1"
| "float_sgn NaN = 0"

fun float_neg :: "pyfloat \<Rightarrow> pyfloat" where
  "float_neg (Fin x) = Fin (- x)"
| "float_neg PosInf = NegInf"
| "float_neg NegInf = PosInf"
| "float_neg NaN = NaN"

fun float_add :: "platform \<Rightarrow> pyfloat \<Rightarrow> pyfloat \<Rightarrow> pyfloat" where
  "float_add P NaN y = NaN"
| "float_add P x NaN = NaN"
| "float_add P (Fin x) (Fin y) = to_double P (x + y)"
| "float_add P PosInf NegInf = NaN"
| "float_add P NegInf PosInf = NaN"
| "float_add P PosInf y = PosInf"
| "float_add P NegInf y = NegInf"
| "float_add P x y = y"

definition float_sub :: "platform \<Rightarrow> pyfloat \<Rightarrow> pyfloat \<Rightarrow> pyfloat" where
  "float_sub P x y = float_add P x (float_neg y)"

fun float_mul :: "platform \<Rightarrow> pyfloat \<Rightarrow> pyfloat \<Rightarrow> pyfloat" where
  "float_mul P NaN y = NaN"
| "float_mul P x NaN = NaN"
| "float_mul P (Fin x) (Fin y) = to_double P (x * y)"
| "float_mul P x y =
     (if float_sgn x * float_sgn y = 0 then NaN
      else if 0 < float_sgn x * float_sgn y then PosInf
      else NegInf)"

text \<open>The quotient of two floats, the divisor not zero.\<close>

fun float_div :: "platform \<Rightarrow> pyfloat \<Rightarrow> pyfloat \<Rightarrow> pyfloat" where
  "float_div P NaN y = NaN"
| "float_div P x NaN = NaN"
| "float_div P (Fin x) (Fin y) = to_double P (x / y)"
| "float_div P (Fin x) y = Fin 0"
| "float_div P x (Fin y) = (if 0 < float_sgn x * float_sgn (Fin y) then PosInf else NegInf)"
| "float_div P x y = NaN"

definition float_args ::
  "platform \<Rightarrow> pyval \<Rightarrow> pyval \<Rightarrow> (pyfloat \<Rightarrow> pyfloat \<Rightarrow> exn + pyfloat) \<Rightarrow> exn + pyval" where
  "float_args P a b f =
     (case to_float P a of
        Inl e \<Rightarrow> Inl e
      | Inr x \<Rightarrow>
          (case to_float P b of
             Inl e \<Rightarrow> Inl e
           | Inr y \<Rightarrow> (case f x y of Inl e \<Rightarrow> Inl e | Inr r \<Rightarrow> Inr (PFloat r))))"

text \<open>
  \<open>a + b\<close>, \<open>a - b\<close>, \<open>a * b\<close> of two numbers: exact on \<open>int\<close>s, in floats as soon
  as one operand is a float.
\<close>

definition py_add :: "platform \<Rightarrow> pyval \<Rightarrow> pyval \<Rightarrow> exn + pyval" where
  "py_add P a b =
     (case (int_value a, int_value b) of
        (Some x, Some y) \<Rightarrow> Inr (PInt (x + y))
      | _ \<Rightarrow> float_args P a b (\<lambda>x y. Inr (float_add P x y)))"

definition py_sub :: "platform \<Rightarrow> pyval \<Rightarrow> pyval \<Rightarrow> exn + pyval" where
  "py_sub P a b =
     (case (int_value a, int_value b) of
        (Some x, Some y) \<Rightarrow> Inr (PInt (x - y))
      | _ \<Rightarrow> float_args P a b (\<lambda>x y. Inr (float_sub P x y)))"

definition py_mul :: "platform \<Rightarrow> pyval \<Rightarrow> pyval \<Rightarrow> exn + pyval" where
  "py_mul P a b =
     (case (int_value a, int_value b) of
        (Some x, Some y) \<Rightarrow> Inr (PInt (x * y))
      | _ \<Rightarrow> float_args P a b (\<lambda>x y. Inr (float_mul P x y)))"

text \<open>
  \<open>a / b\<close>: true division. A zero divisor raises \<open>ZeroDivisionError\<close>, for \<open>int\<close>s
  and for floats.
\<close>

definition py_truediv :: "platform \<Rightarrow> pyval \<Rightarrow> pyval \<Rightarrow> exn + pyval" where
  "py_truediv P a b =
     (case (int_value a, int_value b) of
        (Some x, Some y) \<Rightarrow>
          if y = 0 then Inl ZeroDivisionError
          else if overflow_bound \<le> \<bar>of_int x / of_int y\<bar> then Inl OverflowError
          else Inr (PFloat (Fin (rnd P (of_int x / of_int y))))
      | _ \<Rightarrow> float_args P a b
               (\<lambda>x y. if y = Fin 0 then Inl ZeroDivisionError else Inr (float_div P x y)))"

definition is_integer :: "real \<Rightarrow> bool" where
  "is_integer x = (of_int \<lfloor>x\<rfloor> = x)"

text \<open>The power of two reals, where it is defined.\<close>

definition real_pow :: "real \<Rightarrow> real \<Rightarrow> real" where
  "real_pow x y = (if is_integer y then x powi \<lfloor>y\<rfloor> else x powr y)"

definition pow_defined :: "real \<Rightarrow> real \<Rightarrow> bool" where
  "pow_defined x y = (\<not> (x < 0 \<and> \<not> is_integer y) \<and> \<not> (x = 0 \<and> y < 0))"

definition odd_integer :: "pyfloat \<Rightarrow> bool" where
  "odd_integer f = (case f of Fin y \<Rightarrow> is_integer y \<and> odd \<lfloor>y\<rfloor> | _ \<Rightarrow> False)"

text \<open>
  \<open>math.pow\<close> on two floats: the special cases of the infinities and NaN;
  \<open>ValueError\<close> where the power is not defined; \<open>OverflowError\<close> where the result
  is too large for a float.
\<close>

definition math_pow :: "platform \<Rightarrow> pyfloat \<Rightarrow> pyfloat \<Rightarrow> exn + pyfloat" where
  "math_pow P x y =
     (case (x, y) of
        (Fin u, Fin v) \<Rightarrow>
          if \<not> pow_defined u v then Inl ValueError
          else if overflow_bound \<le> \<bar>real_pow u v\<bar> then Inl OverflowError
          else Inr (Fin (rnd P (real_pow u v)))
      | (NaN, _) \<Rightarrow> Inr (if y = Fin 0 then Fin 1 else NaN)
      | (_, NaN) \<Rightarrow> Inr (if x = Fin 1 then Fin 1 else NaN)
      | (Fin u, _) \<Rightarrow>
          Inr (if \<bar>u\<bar> = 1 then Fin 1
               else if y = PosInf \<and> 1 < \<bar>u\<bar> then PosInf
               else if y = NegInf \<and> \<bar>u\<bar> < 1 then PosInf
               else Fin 0)
      | _ \<Rightarrow>
          Inr (if 0 < float_sgn y then (if odd_integer y then x else PosInf)
               else if y = Fin 0 then Fin 1
               else Fin 0))"

definition py_math_pow :: "platform \<Rightarrow> pyval \<Rightarrow> pyval \<Rightarrow> exn + pyval" where
  "py_math_pow P a b = float_args P a b (math_pow P)"

definition arithmetic :: "platform \<Rightarrow> pyval \<Rightarrow> string \<Rightarrow> pyval \<Rightarrow> exn + pyval" where
  "arithmetic P a op b =
     (if \<not> is_number a \<or> \<not> is_number b then Inl (ExpressionEvaluationException VALUE)
      else if op = ''+'' then py_add P a b
      else if op = ''-'' then py_sub P a b
      else if op = ''*'' then py_mul P a b
      else if op = ''/'' then py_truediv P a b
      else if op = ''^'' then
        (case py_math_pow P a b of
           Inl OverflowError \<Rightarrow> Inl (ExpressionEvaluationException NUM)
         | r \<Rightarrow> r)
      else Inr PNone)"

section \<open>\<open>to_str\<close> and the rule \<open>concat\<close>\<close>

text \<open>\<open>str(value)\<close>.\<close>

fun py_str :: "platform \<Rightarrow> pyval \<Rightarrow> string" where
  "py_str P (PInt i) = str_int i"
| "py_str P (PFloat (Fin x)) = float_repr P x"
| "py_str P (PFloat PosInf) = ''inf''"
| "py_str P (PFloat NegInf) = ''-inf''"
| "py_str P (PFloat NaN) = ''nan''"
| "py_str P (PStr s) = s"
| "py_str P (PBool b) = (if b then ''True'' else ''False'')"
| "py_str P PNone = ''None''"

text \<open>\<open>isinstance(value, float) and value.is_integer()\<close>.\<close>

fun integer_float :: "pyval \<Rightarrow> bool" where
  "integer_float (PFloat (Fin x)) = is_integer x"
| "integer_float v = False"

text \<open>\<open>int(value)\<close> of a finite float: rounding towards zero.\<close>

fun int_of_float :: "pyval \<Rightarrow> int" where
  "int_of_float (PFloat (Fin x)) = (if 0 \<le> x then \<lfloor>x\<rfloor> else \<lceil>x\<rceil>)"
| "int_of_float v = 0"

fun is_bool :: "pyval \<Rightarrow> bool" where
  "is_bool (PBool b) = True"
| "is_bool v = False"

definition to_str :: "platform \<Rightarrow> pyval \<Rightarrow> string" where
  "to_str P v =
     py_str P
       (if integer_float v then PInt (int_of_float v)
        else if is_bool v then PStr (if v = PBool True then ''TRUE'' else ''FALSE'')
        else v)"

definition concat_rule :: "platform \<Rightarrow> pyval \<Rightarrow> pyval \<Rightarrow> pyval" where
  "concat_rule P a b = PStr (to_str P a @ to_str P b)"

section \<open>The registry \<open>function_map\<close> and the rule \<open>function\<close>\<close>

definition quoted :: "string \<Rightarrow> string" where
  "quoted s = [CHR 0x27] @ s @ [CHR 0x27]"

fun float_abs :: "pyfloat \<Rightarrow> pyfloat" where
  "float_abs (Fin x) = Fin \<bar>x\<bar>"
| "float_abs PosInf = PosInf"
| "float_abs NegInf = PosInf"
| "float_abs NaN = NaN"

text \<open>
  The built-in \<open>abs\<close>, called with the arguments of the formula. The messages are
  those of the interpreter.
\<close>

definition py_abs :: "pyval list \<Rightarrow> exn + pyval" where
  "py_abs args =
     (case args of
        [v] \<Rightarrow>
          (case v of
             PInt i \<Rightarrow> Inr (PInt \<bar>i\<bar>)
           | PBool b \<Rightarrow> Inr (PInt (if b then 1 else 0))
           | PFloat f \<Rightarrow> Inr (PFloat (float_abs f))
           | _ \<Rightarrow> Inl (TypeError (''bad operand type for abs(): '' @ quoted (type_name v))))
      | _ \<Rightarrow>
          Inl (TypeError (''abs() takes exactly one argument ('' @ str_nat (length args)
                          @ '' given)'')))"

text \<open>\<open>lambda val: len(str(val))\<close>, called with the arguments of the formula.\<close>

definition len_lambda :: "platform \<Rightarrow> pyval list \<Rightarrow> exn + pyval" where
  "len_lambda P args =
     (case args of
        [] \<Rightarrow>
          Inl (TypeError (''<lambda>() missing 1 required positional argument: ''
                          @ quoted ''val''))
      | [v] \<Rightarrow> Inr (PInt (int (length (py_str P v))))
      | _ \<Rightarrow>
          Inl (TypeError (''<lambda>() takes 1 positional argument but ''
                          @ str_nat (length args) @ '' were given'')))"

definition function_map :: "platform \<Rightarrow> string \<Rightarrow> (pyval list \<Rightarrow> exn + pyval) option" where
  "function_map P name =
     (if name = ''abs'' then Some py_abs
      else if name = ''len'' then Some (len_lambda P)
      else None)"

definition function_rule :: "platform \<Rightarrow> string \<Rightarrow> pyval list \<Rightarrow> exn + pyval" where
  "function_rule P name args =
     (case function_map P (lower name) of
        None \<Rightarrow> Inl (ExpressionEvaluationException NAME)
      | Some f \<Rightarrow>
          (case f args of
             Inl KeyError \<Rightarrow> Inl (ExpressionEvaluationException NAME)
           | Inl (TypeError msg) \<Rightarrow>
               if startswith msg ''bad operand type'' then
                 Inl (ExpressionEvaluationException VALUE)
               else if contains msg ''takes exactly'' then
                 Inl (ExpressionEvaluationException NA)
               else Inl (TypeError msg)
           | r \<Rightarrow> r))"

section \<open>Cell references\<close>

subsection \<open>The pattern of \<open>atomic_string\<close>\<close>

text \<open>
  \<open>re.match\<close> tries the alternatives of a pattern in a fixed order, the longest
  repetition first, and returns the first way the pattern matches at the start of the
  text. A matcher gives every way its pattern matches a prefix, in that order, each
  with the text matched and the text left.
\<close>

type_synonym matcher = "string \<Rightarrow> (string \<times> string) list"

definition re_lit :: "char \<Rightarrow> matcher" where
  "re_lit c s = (case s of [] \<Rightarrow> [] | x # xs \<Rightarrow> if x = c then [([c], xs)] else [])"

definition re_opt :: "matcher \<Rightarrow> matcher" where
  "re_opt m s = m s @ [([], s)]"

text \<open>A character class repeated between \<open>lo\<close> and \<open>hi\<close> times.\<close>

definition re_rep :: "(char \<Rightarrow> bool) \<Rightarrow> nat \<Rightarrow> nat \<Rightarrow> matcher" where
  "re_rep p lo hi s =
     map (\<lambda>k. (take k s, drop k s)) (rev [lo ..< Suc (min hi (length (takeWhile p s)))])"

definition re_seq :: "matcher \<Rightarrow> matcher \<Rightarrow> matcher" where
  "re_seq m1 m2 s = [(a @ b, r2). (a, r1) \<leftarrow> m1 s, (b, r2) \<leftarrow> m2 r1]"

definition is_sheet_chr :: "char \<Rightarrow> bool" where
  "is_sheet_chr c = (is_letter c \<or> is_digit c \<or> c = CHR ''_'' \<or> c = CHR '' '')"

definition apostrophe :: char where
  "apostrophe = CHR 0x27"

text \<open>The three groups: \<open>'?[A-Za-z0-9_ ]+'?!\<close>, \<open>\$?[A-Za-z]{1,3}\<close>, \<open>\$?\d{1,5}\<close>.\<close>

definition sheet_re :: matcher where
  "sheet_re s =
     re_seq (re_opt (re_lit apostrophe))
       (re_seq (re_rep is_sheet_chr 1 (length s))
          (re_seq (re_opt (re_lit apostrophe)) (re_lit CHR ''!''))) s"

definition col_re :: matcher where
  "col_re = re_seq (re_opt (re_lit CHR ''$'')) (re_rep is_letter 1 3)"

definition row_re :: matcher where
  "row_re = re_seq (re_opt (re_lit CHR ''$'')) (re_rep is_digit 1 5)"

text \<open>
  \<open>re.match(r"('?[A-Za-z0-9_ ]+'?!)?(\$?[A-Za-z]{1,3})(\$?\d{1,5})", name)\<close> and its
  \<open>groups()\<close>; \<open>None\<close> when the pattern does not match.
\<close>

definition cell_re :: "string \<Rightarrow> (string option \<times> string \<times> string) option" where
  "cell_re name =
     (case [(g1, g2, g3).
              (g1, r1) \<leftarrow> map (\<lambda>(a, r). (Some a, r)) (sheet_re name) @ [(None, name)],
              (g2, r2) \<leftarrow> col_re r1,
              (g3, r3) \<leftarrow> row_re r2] of
        [] \<Rightarrow> None
      | m # ms \<Rightarrow> Some m)"

subsection \<open>The sheets and the rule \<open>cell_lookup\<close>\<close>

text \<open>
  What a cell holds: a plain value, or a composite descriptor (a shared formula) whose
  attribute \<open>value\<close> is a plain value.
\<close>

datatype cell_value = Plain pyval | Composite pyval

type_synonym sheet = "nat \<times> nat \<Rightarrow> cell_value option"

text \<open>
  The cell that owns the formula gives its sheet, \<open>self._cell.worksheet\<close>, and through
  it the workbook with its \<open>get_sheet_by_name\<close>, where \<open>None\<close> is the \<open>KeyError\<close> of a
  name that no sheet has. \<open>coordinate_from_spreadsheet\<close> of \<open>gnumeric.utils\<close> is taken
  as it comes; \<open>None\<close> is its \<open>IndexError\<close>.
\<close>

record cell_env =
  worksheet :: sheet
  get_sheet_by_name :: "string \<Rightarrow> sheet option"
  coordinate_from_spreadsheet :: "string \<Rightarrow> (nat \<times> nat) option"

text \<open>
  Modelled from the spec: \<open>Sheet.cell(row, column, create)\<close> is not in the source at
  hand. The cell at a coordinate is returned with the sheet as the call leaves it. Where
  no cell exists, \<open>create=False\<close> raises \<open>IndexError\<close> and leaves the sheet alone, and
  \<open>create=True\<close> adds an empty cell.
\<close>

definition sheet_cell :: "sheet \<Rightarrow> nat \<times> nat \<Rightarrow> bool \<Rightarrow> exn + (cell_value \<times> sheet)" where
  "sheet_cell sh rc create =
     (case sh rc of
        Some v \<Rightarrow> Inr (v, sh)
      | None \<Rightarrow>
          if create then Inr (Plain PNone, sh(rc \<mapsto> Plain PNone))
          else Inl IndexError)"

fun store_sheet :: "cell_env \<Rightarrow> string option \<Rightarrow> sheet \<Rightarrow> cell_env" where
  "store_sheet ctx None sh = ctx\<lparr>worksheet := sh\<rparr>"
| "store_sheet ctx (Some n) sh = ctx\<lparr>get_sheet_by_name := (get_sheet_by_name ctx)(n \<mapsto> sh)\<rparr>"

text \<open>The rule returns the value of the cell, and the sheets as the lookup leaves them.\<close>

definition cell_lookup ::
  "cell_env \<Rightarrow> string option \<times> string \<times> string \<Rightarrow> (exn + cell_value) \<times> cell_env" where
  "cell_lookup ctx ref =
     (case ref of (ref_sheet, ref_col, ref_row) \<Rightarrow>
        (case (case ref_sheet of None \<Rightarrow> Some (worksheet ctx)
                               | Some n \<Rightarrow> get_sheet_by_name ctx n) of
           None \<Rightarrow> (Inl (ExpressionEvaluationException REF), ctx)
         | Some sh \<Rightarrow>
             (case coordinate_from_spreadsheet ctx (ref_col @ ref_row) of
                None \<Rightarrow> (Inr (Plain (PInt 0)), ctx)
              | Some rc \<Rightarrow>
                  (case sheet_cell sh rc False of
                     Inl e \<Rightarrow> (if e = IndexError then Inr (Plain (PInt 0)) else Inl e, ctx)
                   | Inr (v, sh') \<Rightarrow> (Inr v, store_sheet ctx ref_sheet sh')))))"

subsection \<open>The rule \<open>atomic_string\<close>\<close>

text \<open>\<open>sheet[:-1]\<close>, then without its apostrophes when it has one at each end.\<close>

definition sheet_name :: "string \<Rightarrow> string" where
  "sheet_name g =
     (let sheet = butlast g
      in if startswith sheet [apostrophe] \<and> endswith sheet [apostrophe]
         then butlast (tl sheet) else sheet)"

text \<open>
  \<open>cell_value.value\<close> for what is neither \<open>None\<close> nor an \<open>int\<close>, a float or a
  \<open>str\<close>.
\<close>

fun unwrap :: "cell_value \<Rightarrow> pyval" where
  "unwrap (Plain v) = v"
| "unwrap (Composite v) = v"

definition atomic_string :: "cell_env \<Rightarrow> string \<Rightarrow> exn + pyval" where
  "atomic_string ctx name =
     (if name = ''TRUE'' then Inr (PBool True)
      else if name = ''FALSE'' then Inr (PBool False)
      else
        (case cell_re name of
           Some (sheet, col, row) \<Rightarrow>
             (case fst (cell_lookup ctx (map_option sheet_name sheet, col, row)) of
                Inl e \<Rightarrow> Inl e
              | Inr cell_value \<Rightarrow> Inr (unwrap cell_value))
         | None \<Rightarrow> Inl (ExpressionEvaluationException NAME)))"

section \<open>Literals\<close>

text \<open>\<open>int(val)\<close> on a text without blanks: a sign and digits, or \<open>ValueError\<close>.\<close>

definition digits :: "string \<Rightarrow> bool" where
  "digits s = (s \<noteq> [] \<and> list_all is_digit s)"

definition py_int :: "string \<Rightarrow> int option" where
  "py_int s =
     (case s of
        [] \<Rightarrow> None
      | c # ds \<Rightarrow>
          if c = CHR ''-'' then (if digits ds then Some (- int_of_digits ds) else None)
          else if c = CHR ''+'' then (if digits ds then Some (int_of_digits ds) else None)
          else if digits s then Some (int_of_digits s)
          else None)"

text \<open>
  The number a decimal text denotes: a sign, digits with a point among them, and an
  exponent. These are the texts of the terminal \<open>NUMBER\<close> of the grammar.
\<close>

definition decimal_value :: "string \<Rightarrow> real option" where
  "decimal_value s =
     (let neg = startswith s ''-'';
          r = (if startswith s ''-'' \<or> startswith s ''+'' then tl s else s);
          ip = takeWhile is_digit r;
          r1 = dropWhile is_digit r;
          fp = (if startswith r1 ''.'' then takeWhile is_digit (tl r1) else []);
          r2 = (if startswith r1 ''.'' then dropWhile is_digit (tl r1) else r1);
          ex = (if r2 = [] then Some 0
                else if startswith r2 ''e'' \<or> startswith r2 ''E'' then py_int (tl r2)
                else None)
      in if ip = [] \<and> fp = [] then None
         else
           (case ex of
              None \<Rightarrow> None
            | Some e \<Rightarrow>
                Some ((if neg then - 1 else 1) * of_int (int_of_digits (ip @ fp))
                      * 10 powi (e - int (length fp)))))"

text \<open>\<open>float(val)\<close> on a decimal text, or \<open>ValueError\<close>.\<close>

definition py_float :: "platform \<Rightarrow> string \<Rightarrow> pyfloat option" where
  "py_float P s = map_option (to_double P) (decimal_value s)"

definition number :: "platform \<Rightarrow> string \<Rightarrow> exn + pyval" where
  "number P val =
     (case py_int val of
        Some i \<Rightarrow> Inr (PInt i)
      | None \<Rightarrow>
          (case py_float P val of
             Some f \<Rightarrow> Inr (PFloat f)
           | None \<Rightarrow> Inl ValueError))"

text \<open>\<open>a.value[1:-1]\<close>.\<close>

definition string_rule :: "string \<Rightarrow> pyval" where
  "string_rule a = PStr (butlast (tl a))"

section \<open>The walk over the parse tree, and \<open>evaluate\<close>\<close>

text \<open>
  The trees of the grammar, a node for each alias: \<open>number\<close>, \<open>string\<close>,
  \<open>error_ref\<close>, \<open>atomic_string\<close>, \<open>logical\<close>, \<open>concat\<close>, \<open>arithmetic\<close>,
  \<open>function\<close>.
\<close>

datatype tree =
    Number string
  | StringTok string
  | ErrorRef
  | AtomicString string
  | Logical tree string tree
  | Concat tree tree
  | Arithmetic tree string tree
  | Function string "tree list"

text \<open>
  The transformer visits the children of a node from left to right, then calls the rule
  of the node. An exception leaves the walk where it is raised.
\<close>

fun transform :: "platform \<Rightarrow> cell_env \<Rightarrow> tree \<Rightarrow> exn + pyval"
  and transform_children :: "platform \<Rightarrow> cell_env \<Rightarrow> tree list \<Rightarrow> exn + pyval list" where
  "transform P ctx (Number val) = number P val"
| "transform P ctx (StringTok a) = Inr (string_rule a)"
| "transform P ctx ErrorRef = Inl (ExpressionEvaluationException REF)"
| "transform P ctx (AtomicString name) = atomic_string ctx name"
| "transform P ctx (Logical ta op tb) =
     (case transform P ctx ta of
        Inl e \<Rightarrow> Inl e
      | Inr a \<Rightarrow> (case transform P ctx tb of Inl e \<Rightarrow> Inl e | Inr b \<Rightarrow> logical a op b))"
| "transform P ctx (Concat ta tb) =
     (case transform P ctx ta of
        Inl e \<Rightarrow> Inl e
      | Inr a \<Rightarrow> (case transform P ctx tb of Inl e \<Rightarrow> Inl e | Inr b \<Rightarrow> Inr (concat_rule P a b)))"
| "transform P ctx (Arithmetic ta op tb) =
     (case transform P ctx ta of
        Inl e \<Rightarrow> Inl e
      | Inr a \<Rightarrow> (case transform P ctx tb of Inl e \<Rightarrow> Inl e | Inr b \<Rightarrow> arithmetic P a op b))"
| "transform P ctx (Function name args) =
     (case transform_children P ctx args of
        Inl e \<Rightarrow> Inl e
      | Inr vs \<Rightarrow> function_rule P name vs)"
| "transform_children P ctx [] = Inr []"
| "transform_children P ctx (t # ts) =
     (case transform P ctx t of
        Inl e \<Rightarrow> Inl e
      | Inr v \<Rightarrow>
          (case transform_children P ctx ts of Inl e \<Rightarrow> Inl e | Inr vs \<Rightarrow> Inr (v # vs)))"

text \<open>
  What a call of \<open>evaluate\<close> does: it returns a value, it returns a member of
  \<open>EvaluationError\<close>, or it raises.
\<close>

datatype outcome = Returns pyval | ReturnsError EvaluationError | Raises exn

text \<open>
  \<open>evaluate(expression, cell)\<close>. The parser is the one the library builds from the
  grammar; it is an argument here.
\<close>

definition evaluate ::
  "(string \<Rightarrow> exn + tree) \<Rightarrow> platform \<Rightarrow> cell_env \<Rightarrow> string \<Rightarrow> outcome" where
  "evaluate parse P cell expression =
     (case parse expression of
        Inl e \<Rightarrow> Raises e
      | Inr tree \<Rightarrow>
          (case transform P cell tree of
             Inr result \<Rightarrow> Returns result
           | Inl ZeroDivisionError \<Rightarrow> ReturnsError DIV0
           | Inl (ExpressionEvaluationException error) \<Rightarrow> ReturnsError error
           | Inl e \<Rightarrow> Raises e))"

section \<open>The grammar's literals\<close>

text \<open>
  The terminals of the grammar that an atom can be: \<open>NUMBER\<close>, \<open>ESCAPED_STRING\<close>
  and \<open>ATOMIC_STR\<close>.
\<close>

definition is_NUMBER :: "string \<Rightarrow> bool" where
  "is_NUMBER t = (decimal_value t \<noteq> None)"

text \<open>
  After the opening quote, the text up to the first quote that an even number of
  backslashes precedes; that quote has to be the last character.
\<close>

fun esc_scan :: "bool \<Rightarrow> string \<Rightarrow> bool" where
  "esc_scan odd_run [] = False"
| "esc_scan odd_run (c # cs) =
     (if c = CHR 0x22 \<and> \<not> odd_run then cs = []
      else if c = CHR 0x5C then esc_scan (\<not> odd_run) cs
      else if c = CHR 0x0A then False
      else esc_scan False cs)"

definition is_ESCAPED_STRING :: "string \<Rightarrow> bool" where
  "is_ESCAPED_STRING t = (case t of [] \<Rightarrow> False | c # r \<Rightarrow> c = CHR 0x22 \<and> esc_scan False r)"

definition is_atomic_chr :: "char \<Rightarrow> bool" where
  "is_atomic_chr c =
     (c = CHR ''_'' \<or> is_letter c \<or> is_digit c \<or> c = CHR ''.'' \<or> c = CHR ''!''
      \<or> c = CHR ''$'' \<or> c = apostrophe \<or> c = CHR '' '')"

definition is_ATOMIC_STR :: "string \<Rightarrow> bool" where
  "is_ATOMIC_STR t =
     (case t of
        [] \<Rightarrow> False
      | c # r \<Rightarrow> (is_letter c \<or> c = CHR ''$'' \<or> c = apostrophe) \<and> list_all is_atomic_chr r)"

text \<open>
  The parse of a formula that is one literal: the marker \<open>=\<close> or \<open>+\<close>, then one
  terminal and nothing else.
\<close>

definition parse_literal :: "string \<Rightarrow> exn + tree" where
  "parse_literal expression =
     (case expression of
        [] \<Rightarrow> Inl ParseError
      | c # t \<Rightarrow>
          if c \<noteq> CHR ''='' \<and> c \<noteq> CHR ''+'' then Inl ParseError
          else if is_NUMBER t then Inr (Number t)
          else if is_ESCAPED_STRING t then Inr (StringTok t)
          else if t = ''#REF!'' then Inr ErrorRef
          else if is_ATOMIC_STR t then Inr (AtomicString t)
          else Inl ParseError)"

section \<open>What the specification says, in its own words\<close>

subsection \<open>Categories of operands\<close>

datatype category = Numeric | Text | Boolean

fun category_of :: "pyval \<Rightarrow> category option" where
  "category_of (PInt i) = Some Numeric"
| "category_of (PFloat f) = Some Numeric"
| "category_of (PStr s) = Some Text"
| "category_of (PBool b) = Some Boolean"
| "category_of PNone = None"

fun ordinal :: "category \<Rightarrow> int" where
  "ordinal Numeric = 0"
| "ordinal Text = 50"
| "ordinal Boolean = 100"

definition logical_ops :: "string list" where
  "logical_ops = [''='', ''<>'', ''<'', ''<='', ''>'', ''>='']"

definition int_rel :: "string \<Rightarrow> int \<Rightarrow> int \<Rightarrow> bool" where
  "int_rel op x y =
     (if op = ''='' then x = y
      else if op = ''<>'' then x \<noteq> y
      else if op = ''<'' then x < y
      else if op = ''<='' then x \<le> y
      else if op = ''>'' then x > y
      else x \<ge> y)"

text \<open>
  Lower case, as a table: every upper-case letter beside its lower-case letter, the
  letters of the alphabet first, then the accented ones (\<open>CHR 0xC0\<close> is A with a
  grave accent, \<open>CHR 0xDE\<close> the capital thorn). A character that is not in the left
  column is left as it is.
\<close>

definition lowercase_table :: "(char \<times> char) list" where
  "lowercase_table =
     zip ''ABCDEFGHIJKLMNOPQRSTUVWXYZ'' ''abcdefghijklmnopqrstuvwxyz'' @
     [(CHR 0xC0, CHR 0xE0), (CHR 0xC1, CHR 0xE1), (CHR 0xC2, CHR 0xE2), (CHR 0xC3, CHR 0xE3),
      (CHR 0xC4, CHR 0xE4), (CHR 0xC5, CHR 0xE5), (CHR 0xC6, CHR 0xE6), (CHR 0xC7, CHR 0xE7),
      (CHR 0xC8, CHR 0xE8), (CHR 0xC9, CHR 0xE9), (CHR 0xCA, CHR 0xEA), (CHR 0xCB, CHR 0xEB),
      (CHR 0xCC, CHR 0xEC), (CHR 0xCD, CHR 0xED), (CHR 0xCE, CHR 0xEE), (CHR 0xCF, CHR 0xEF),
      (CHR 0xD0, CHR 0xF0), (CHR 0xD1, CHR 0xF1), (CHR 0xD2, CHR 0xF2), (CHR 0xD3, CHR 0xF3),
      (CHR 0xD4, CHR 0xF4), (CHR 0xD5, CHR 0xF5), (CHR 0xD6, CHR 0xF6),
      (CHR 0xD8, CHR 0xF8), (CHR 0xD9, CHR 0xF9), (CHR 0xDA, CHR 0xFA), (CHR 0xDB, CHR 0xFB),
      (CHR 0xDC, CHR 0xFC), (CHR 0xDD, CHR 0xFD), (CHR 0xDE, CHR 0xFE)]"

definition lowercase :: "string \<Rightarrow> string" where
  "lowercase s = map (\<lambda>c. case map_of lowercase_table c of Some l \<Rightarrow> l | None \<Rightarrow> c) s"

text \<open>An operand with its text, if it is one, in lower case.\<close>

fun caseless :: "pyval \<Rightarrow> pyval" where
  "caseless (PStr s) = PStr (lowercase s)"
| "caseless v = v"

text \<open>The native order inside a category: of numbers, of texts, of booleans.\<close>

fun native_lt :: "pyval \<Rightarrow> pyval \<Rightarrow> bool" where
  "native_lt (PStr s) (PStr t) = str_lt s t"
| "native_lt (PBool x) (PBool y) = (\<not> x \<and> y)"
| "native_lt a b =
     (case (as_number a, as_number b) of (Some x, Some y) \<Rightarrow> float_lt x y | _ \<Rightarrow> False)"

fun native_le :: "pyval \<Rightarrow> pyval \<Rightarrow> bool" where
  "native_le (PStr s) (PStr t) = (s = t \<or> str_lt s t)"
| "native_le (PBool x) (PBool y) = (y \<or> \<not> x)"
| "native_le a b =
     (case (as_number a, as_number b) of (Some x, Some y) \<Rightarrow> float_le x y | _ \<Rightarrow> False)"

fun native_eq :: "pyval \<Rightarrow> pyval \<Rightarrow> bool" where
  "native_eq (PStr s) (PStr t) = (s = t)"
| "native_eq (PBool x) (PBool y) = (x = y)"
| "native_eq a b =
     (case (as_number a, as_number b) of (Some x, Some y) \<Rightarrow> float_eq x y | _ \<Rightarrow> False)"

definition native_rel :: "string \<Rightarrow> pyval \<Rightarrow> pyval \<Rightarrow> bool" where
  "native_rel op a b =
     (if op = ''='' then native_eq a b
      else if op = ''<>'' then \<not> native_eq a b
      else if op = ''<'' then native_lt a b
      else if op = ''<='' then native_le a b
      else if op = ''>'' then native_lt b a
      else native_le b a)"

subsection \<open>The canonical display text\<close>

definition display_text :: "platform \<Rightarrow> pyval \<Rightarrow> string" where
  "display_text P v =
     (case v of
        PBool b \<Rightarrow> if b then ''TRUE'' else ''FALSE''
      | PFloat (Fin x) \<Rightarrow> if x \<in> \<int> then str_int \<lfloor>x\<rfloor> else py_str P v
      | _ \<Rightarrow> py_str P v)"

subsection \<open>The texts of a cell reference\<close>

text \<open>
  A column: one to three letters, a \<open>$\<close> before them or not. A row: one to five
  digits, a \<open>$\<close> before them or not. A sheet qualifier: a run of letters, digits,
  underscores and blanks, an apostrophe before it or not, an apostrophe after it or
  not, then \<open>!\<close>.
\<close>

definition undollar :: "string \<Rightarrow> string" where
  "undollar s = (if startswith s ''$'' then tl s else s)"

definition column_text :: "string \<Rightarrow> bool" where
  "column_text c =
     (1 \<le> length (undollar c) \<and> length (undollar c) \<le> 3 \<and> list_all is_letter (undollar c))"

definition row_text :: "string \<Rightarrow> bool" where
  "row_text r =
     (1 \<le> length (undollar r) \<and> length (undollar r) \<le> 5 \<and> list_all is_digit (undollar r))"

definition unquote_l :: "string \<Rightarrow> string" where
  "unquote_l s = (if startswith s [apostrophe] then tl s else s)"

definition unquote_r :: "string \<Rightarrow> string" where
  "unquote_r s = (if endswith s [apostrophe] then butlast s else s)"

definition qualifier_text :: "string \<Rightarrow> bool" where
  "qualifier_text q =
     (endswith q ''!'' \<and> unquote_r (unquote_l (butlast q)) \<noteq> []
      \<and> list_all is_sheet_chr (unquote_r (unquote_l (butlast q))))"

text \<open>The value a reference has: the cell's, a composite descriptor unwrapped once.\<close>

definition lookup_value :: "cell_env \<Rightarrow> string option \<times> string \<times> string \<Rightarrow> exn + pyval" where
  "lookup_value ctx ref =
     (case fst (cell_lookup ctx ref) of Inl e \<Rightarrow> Inl e | Inr v \<Rightarrow> Inr (unwrap v))"

section \<open>A workbook for the examples\<close>

text \<open>A platform that rounds nothing.\<close>

definition exact_platform :: platform where
  "exact_platform = \<lparr> rnd = (\<lambda>x. x), float_repr = (\<lambda>x. ''0.5'') \<rparr>"

text \<open>
  Modelled from the spec: \<open>coordinate_from_spreadsheet\<close> of \<open>gnumeric.utils\<close> is not
  in the source at hand. Column letters and row digits become a zero-based row and
  column; a \<open>$\<close> is ignored; a row below 1 raises \<open>IndexError\<close>.
\<close>

definition column_index :: "string \<Rightarrow> int" where
  "column_index ls = foldl (\<lambda>acc c. 26 * acc + (of_char (lower_chr c) - 96)) 0 ls"

definition a1_coordinate :: "string \<Rightarrow> (nat \<times> nat) option" where
  "a1_coordinate s =
     (let t = filter (\<lambda>c. c \<noteq> CHR ''$'') s;
          ls = takeWhile is_letter t;
          ds = dropWhile is_letter t
      in if ls = [] \<or> \<not> digits ds \<or> int_of_digits ds < 1 then None
         else Some (nat (int_of_digits ds - 1), nat (column_index ls - 1)))"

definition demo_sheet :: sheet where
  "demo_sheet = [(0, 0) \<mapsto> Plain (PInt 5), (1, 0) \<mapsto> Composite (PStr ''shared'')]"

definition demo_cell :: cell_env where
  "demo_cell =
     \<lparr> worksheet = demo_sheet,
       get_sheet_by_name = [''Sheet1'' \<mapsto> demo_sheet],
       coordinate_from_spreadsheet = a1_coordinate \<rparr>"

section \<open>Properties\<close>

subsection \<open>Comparison\<close>

lemma apply_logical_op_ints:
  "op \<in> set logical_ops \<Longrightarrow>
   apply_logical_op op (PInt x) (PInt y) = Inr (PBool (int_rel op x y))"
  by (auto simp: logical_ops_def apply_logical_op_def int_rel_def py_eq_def py_lt_def py_le_def
      py_gt_def py_ge_def bool_result_def)

lemma apply_logical_op_same:
  "op \<in> set logical_ops \<Longrightarrow> category_of a = Some c \<Longrightarrow> category_of b = Some c \<Longrightarrow>
   apply_logical_op op a b = Inr (PBool (native_rel op a b))"
  by (cases a; cases b)
     (auto simp: logical_ops_def apply_logical_op_def native_rel_def py_eq_def py_lt_def py_le_def
      py_gt_def py_ge_def bool_result_def str_le_def)

lemma category_lower [simp]: "category_of (lower_if_str a) = category_of a"
  by (cases a) auto

lemma operand_type_category:
  "category_of a = Some ca \<Longrightarrow> category_of b = Some cb \<Longrightarrow>
   (operand_type a = operand_type b) = (ca = cb)"
  by (cases a; cases b) auto

lemma mapper_category:
  "category_of a = Some ca \<Longrightarrow> type_val_mapper (operand_type a) = Some (ordinal ca)"
  by (cases a) auto

lemma logical_by_category:
  assumes op: "op \<in> set logical_ops"
    and a: "category_of a = Some ca" and b: "category_of b = Some cb"
  shows "logical a op b =
           Inr (PBool (if ca = cb then native_rel op (lower_if_str a) (lower_if_str b)
                       else int_rel op (ordinal ca) (ordinal cb)))"
proof -
  have ca: "category_of (lower_if_str a) = Some ca"
    and cb: "category_of (lower_if_str b) = Some cb"
    using a b by simp_all
  show ?thesis
  proof (cases "ca = cb")
    case True
    then show ?thesis
      using op ca cb operand_type_category [OF ca cb] apply_logical_op_same [OF op ca]
      by (simp add: logical_def Let_def)
  next
    case False
    then show ?thesis
      using op operand_type_category [OF ca cb] mapper_category [OF ca] mapper_category [OF cb]
        apply_logical_op_ints [OF op]
      by (simp add: logical_def Let_def)
  qed
qed

lemma lower_chr_table:
  "list_all (\<lambda>c. lower_chr c = (case map_of lowercase_table c of Some l \<Rightarrow> l | None \<Rightarrow> c))
     (Enum.enum :: char list)"
  by code_simp

lemma lower_lowercase: "lower s = lowercase s"
proof -
  have "\<And>c. lower_chr c = (case map_of lowercase_table c of Some l \<Rightarrow> l | None \<Rightarrow> c)"
    using lower_chr_table by (simp add: list_all_iff enum_UNIV)
  then show ?thesis by (simp add: lower_def lowercase_def)
qed

lemma lower_if_str_caseless: "lower_if_str a = caseless a"
  by (cases a) (simp_all add: lower_lowercase)

text \<open>
  C1. A comparison of two operands of one category (numbers with numbers, texts with
  texts, booleans with booleans) is the native comparison, the texts put in lower
  case first; a comparison across categories is the comparison of the ordinals 0, 50
  and 100. So a number is less than a text, and a text less than a boolean.
\<close>

theorem logical_cross_type_ordering:
  assumes "op \<in> set logical_ops" and "category_of a = Some ca" and "category_of b = Some cb"
  shows "logical a op b =
           Inr (PBool (if ca = cb then native_rel op (caseless a) (caseless b)
                       else int_rel op (ordinal ca) (ordinal cb)))
         \<and> (ca = Numeric \<and> cb = Text \<longrightarrow> logical a ''<'' b = Inr (PBool True))
         \<and> (ca = Text \<and> cb = Boolean \<longrightarrow> logical a ''<'' b = Inr (PBool True))
         \<and> (ca = Numeric \<and> cb = Boolean \<longrightarrow> logical a ''<'' b = Inr (PBool True))"
proof -
  have lt: "''<'' \<in> set logical_ops" by (simp add: logical_ops_def)
  show ?thesis
    using logical_by_category [OF assms] logical_by_category [OF lt assms(2,3)]
    by (auto simp: int_rel_def lower_if_str_caseless)
qed

theorem logical_cross_type_ordering_witness:
  "''='' \<in> set logical_ops \<and> ''<'' \<in> set logical_ops
   \<and> category_of (PStr ''ABC'') = Some Text \<and> category_of (PStr ''abc'') = Some Text
   \<and> logical (PStr ''ABC'') ''='' (PStr ''abc'') = Inr (PBool True)
   \<and> logical (PStr ''B'') ''<'' (PStr ''a'') = Inr (PBool False)
   \<and> logical (PStr [CHR 0xC9]) ''='' (PStr [CHR 0xE9]) = Inr (PBool True)
   \<and> logical (PInt 7) ''<'' (PStr ''a'') = Inr (PBool True)"
proof -
  have eq: "''='' \<in> set logical_ops" and lt: "''<'' \<in> set logical_ops"
    by (simp_all add: logical_ops_def)
  have l: "lowercase ''ABC'' = ''abc''" "lowercase ''abc'' = ''abc''" "lowercase ''B'' = ''b''"
    "lowercase ''a'' = ''a''" "lowercase [CHR 0xC9] = [CHR 0xE9]"
    "lowercase [CHR 0xE9] = [CHR 0xE9]"
    by code_simp+
  have 1: "logical (PStr ''ABC'') ''='' (PStr ''abc'') = Inr (PBool True)"
    using logical_cross_type_ordering [OF eq, of "PStr ''ABC''" Text "PStr ''abc''" Text]
    by (simp add: native_rel_def l)
  have 2: "logical (PStr ''B'') ''<'' (PStr ''a'') = Inr (PBool False)"
    using logical_cross_type_ordering [OF lt, of "PStr ''B''" Text "PStr ''a''" Text]
    by (simp add: native_rel_def l)
  have 3: "logical (PStr [CHR 0xC9]) ''='' (PStr [CHR 0xE9]) = Inr (PBool True)"
    using logical_cross_type_ordering [OF eq, of "PStr [CHR 0xC9]" Text "PStr [CHR 0xE9]" Text]
    by (simp add: native_rel_def l)
  have 4: "logical (PInt 7) ''<'' (PStr ''a'') = Inr (PBool True)"
    using logical_cross_type_ordering [OF lt, of "PInt 7" Numeric "PStr ''a''" Text]
    by (simp add: int_rel_def)
  show ?thesis using eq lt 1 2 3 4 by simp
qed

subsection \<open>Arithmetic\<close>

lemma float_args_cases:
  "float_args P a b f = Inl e \<Longrightarrow>
   to_float P a = Inl e \<or> to_float P b = Inl e \<or> (\<exists>x y. f x y = Inl e)"
  by (auto simp: float_args_def split: sum.splits)

lemma to_float_errors:
  "is_number a \<Longrightarrow> to_float P a = Inl e \<Longrightarrow> e = OverflowError"
  by (cases a) (auto simp: to_float_def split: if_splits)

lemma arithmetic_errors:
  assumes "arithmetic P a op b = Inl (ExpressionEvaluationException e)"
  shows "e = VALUE \<or> e = NUM"
proof (cases "is_number a \<and> is_number b")
  case False
  then show ?thesis using assms by (auto simp: arithmetic_def)
next
  case True
  then have na: "is_number a" and nb: "is_number b" by simp_all
  have fa: "\<And>f e. float_args P a b f = Inl (ExpressionEvaluationException e) \<Longrightarrow>
                  \<exists>x y. f x y = Inl (ExpressionEvaluationException e)"
    using float_args_cases to_float_errors [OF na] to_float_errors [OF nb] by blast
  have add: "py_add P a b \<noteq> Inl (ExpressionEvaluationException e)"
    by (auto simp: py_add_def split: option.splits dest!: fa)
  have sub: "py_sub P a b \<noteq> Inl (ExpressionEvaluationException e)"
    by (auto simp: py_sub_def split: option.splits dest!: fa)
  have mul: "py_mul P a b \<noteq> Inl (ExpressionEvaluationException e)"
    by (auto simp: py_mul_def split: option.splits dest!: fa)
  have dv: "py_truediv P a b \<noteq> Inl (ExpressionEvaluationException e)"
    by (auto simp: py_truediv_def split: option.splits if_splits dest!: fa)
  have pw: "py_math_pow P a b = Inl (ExpressionEvaluationException e) \<Longrightarrow> False"
    by (auto simp: py_math_pow_def math_pow_def split: pyfloat.splits if_splits dest!: fa)
  show ?thesis
    using assms True add sub mul dv pw
    by (auto simp: arithmetic_def split: if_splits sum.splits exn.splits)
qed

lemma overflow_bound_pos: "0 < overflow_bound"
  by (simp add: overflow_bound_def)

lemma to_float_zero: "to_float P (PInt 0) = Inr (Fin 0)"
  using overflow_bound_pos by (simp add: to_float_def)

lemma truediv_int_zero:
  assumes "is_number a"
  shows "py_truediv P a (PInt 0) = Inl ZeroDivisionError"
proof (cases a)
  case (PFloat f)
  have "to_float P (PFloat f) = Inr f" by (simp add: to_float_def)
  with PFloat show ?thesis
    by (simp add: py_truediv_def float_args_def to_float_zero)
qed (use assms in \<open>simp_all add: py_truediv_def\<close>)

lemma to_float_bool: "to_float P (PBool b) = to_float P (PInt (if b then 1 else 0))"
  by (simp add: to_float_def)

lemma float_args_bool_left:
  "float_args P (PBool b) y f = float_args P (PInt (if b then 1 else 0)) y f"
  by (simp only: float_args_def to_float_bool)

lemma float_args_bool_right:
  "float_args P x (PBool b) f = float_args P x (PInt (if b then 1 else 0)) f"
  by (simp only: float_args_def to_float_bool)

lemma int_value_bool: "int_value (PBool b) = int_value (PInt (if b then 1 else 0))"
  by simp

lemma is_number_bool: "is_number (PBool b) = is_number (PInt (if b then 1 else 0))"
  by simp

lemma arithmetic_bool_left:
  "arithmetic P (PBool b) op y = arithmetic P (PInt (if b then 1 else 0)) op y"
  by (simp only: arithmetic_def py_add_def py_sub_def py_mul_def py_truediv_def py_math_pow_def
      float_args_bool_left int_value_bool is_number_bool)

lemma arithmetic_bool_right:
  "arithmetic P x op (PBool b) = arithmetic P x op (PInt (if b then 1 else 0))"
  by (simp only: arithmetic_def py_add_def py_sub_def py_mul_def py_truediv_def py_math_pow_def
      float_args_bool_right int_value_bool is_number_bool)

text \<open>
  C3, as amended. An operand that is a text, or the empty value \<open>None\<close>, makes every
  arithmetic operation fail with VALUE, whatever the other operand and the operator.
  Between two operands that are integers, floats or booleans no operation fails with
  VALUE. A boolean operand counts as an integer: every operation gives with \<open>TRUE\<close>
  what it gives with 1, and with \<open>FALSE\<close> what it gives with 0, on the left and on
  the right.
\<close>

theorem arithmetic_value_error:
  "((\<exists>s. a = PStr s) \<or> a = PNone \<or> (\<exists>s. b = PStr s) \<or> b = PNone \<longrightarrow>
      arithmetic P a op b = Inl (ExpressionEvaluationException VALUE))
   \<and> (category_of a \<in> {Some Numeric, Some Boolean}
      \<and> category_of b \<in> {Some Numeric, Some Boolean} \<longrightarrow>
      arithmetic P a op b \<noteq> Inl (ExpressionEvaluationException VALUE))
   \<and> arithmetic P (PBool t) op b = arithmetic P (PInt (if t then 1 else 0)) op b
   \<and> arithmetic P a op (PBool t) = arithmetic P a op (PInt (if t then 1 else 0))"
proof (intro conjI impI)
  assume "(\<exists>s. a = PStr s) \<or> a = PNone \<or> (\<exists>s. b = PStr s) \<or> b = PNone"
  then have "\<not> is_number a \<or> \<not> is_number b" by auto
  then show "arithmetic P a op b = Inl (ExpressionEvaluationException VALUE)"
    by (auto simp: arithmetic_def)
next
  assume c: "category_of a \<in> {Some Numeric, Some Boolean}
      \<and> category_of b \<in> {Some Numeric, Some Boolean}"
  then have n: "is_number a" "is_number b" by (cases a; cases b; simp)+
  have fa: "\<And>f. float_args P a b f = Inl (ExpressionEvaluationException VALUE) \<Longrightarrow>
                  \<exists>x y. f x y = Inl (ExpressionEvaluationException VALUE)"
    using float_args_cases to_float_errors [OF n(1)] to_float_errors [OF n(2)] by blast
  have add: "py_add P a b \<noteq> Inl (ExpressionEvaluationException VALUE)"
    by (auto simp: py_add_def split: option.splits dest!: fa)
  have sub: "py_sub P a b \<noteq> Inl (ExpressionEvaluationException VALUE)"
    by (auto simp: py_sub_def split: option.splits dest!: fa)
  have mul: "py_mul P a b \<noteq> Inl (ExpressionEvaluationException VALUE)"
    by (auto simp: py_mul_def split: option.splits dest!: fa)
  have dv: "py_truediv P a b \<noteq> Inl (ExpressionEvaluationException VALUE)"
    by (auto simp: py_truediv_def split: option.splits if_splits dest!: fa)
  have pw: "py_math_pow P a b = Inl (ExpressionEvaluationException VALUE) \<Longrightarrow> False"
    by (auto simp: py_math_pow_def math_pow_def split: pyfloat.splits if_splits dest!: fa)
  show "arithmetic P a op b \<noteq> Inl (ExpressionEvaluationException VALUE)"
    using n add sub mul dv pw
    by (auto simp: arithmetic_def split: if_splits sum.splits exn.splits)
next
  show "arithmetic P (PBool t) op b = arithmetic P (PInt (if t then 1 else 0)) op b"
    by (rule arithmetic_bool_left)
next
  show "arithmetic P a op (PBool t) = arithmetic P a op (PInt (if t then 1 else 0))"
    by (rule arithmetic_bool_right)
qed

theorem arithmetic_value_error_witness:
  "arithmetic exact_platform (PStr ''x'') ''*'' (PInt 2) = Inl (ExpressionEvaluationException VALUE)
   \<and> arithmetic exact_platform (PBool True) ''/'' (PInt 2)
       \<noteq> Inl (ExpressionEvaluationException VALUE)
   \<and> arithmetic exact_platform (PBool False) ''+'' (PInt 2) = Inr (PInt 2)
   \<and> arithmetic exact_platform (PInt 2) ''*'' (PBool True) = Inr (PInt 2)"
proof -
  have 1: "arithmetic exact_platform (PInt 0) ''+'' (PInt 2) = Inr (PInt 2)"
    by (simp add: arithmetic_def py_add_def)
  have 2: "arithmetic exact_platform (PInt 2) ''*'' (PInt 1) = Inr (PInt 2)"
    by (simp add: arithmetic_def py_mul_def)
  show ?thesis
    using 1 2 arithmetic_value_error [of "PStr ''x''" "PInt 2" exact_platform "''*''" False]
      arithmetic_value_error [of "PBool True" "PInt 2" exact_platform "''/''" False]
      arithmetic_value_error [of "PInt 2" "PInt 2" exact_platform "''+''" False]
      arithmetic_value_error [of "PInt 2" "PInt 2" exact_platform "''*''" True]
    by simp
qed

theorem arithmetic_boolean_counterexample:
  "arithmetic exact_platform (PBool True) ''+'' (PInt 1) = Inr (PInt 2)
   \<and> arithmetic exact_platform (PBool True) ''+'' (PInt 1)
       \<noteq> Inl (ExpressionEvaluationException VALUE)"
  by (simp add: arithmetic_def py_add_def)

subsection \<open>The errors of the rules\<close>

lemma number_errors: "number P val \<noteq> Inl (ExpressionEvaluationException e)"
  by (simp add: number_def split: option.splits)

lemma cell_lookup_errors:
  "fst (cell_lookup ctx ref) = Inl (ExpressionEvaluationException e) \<Longrightarrow> e = REF"
  by (auto simp: cell_lookup_def sheet_cell_def split: prod.splits option.splits if_splits)

lemma atomic_string_errors:
  "atomic_string ctx name = Inl (ExpressionEvaluationException e) \<Longrightarrow> e = NAME \<or> e = REF"
  by (auto simp: atomic_string_def split: if_splits option.splits prod.splits sum.splits
      dest: cell_lookup_errors)

lemma apply_logical_op_errors:
  "apply_logical_op op a b \<noteq> Inl (ExpressionEvaluationException e)"
  by (auto simp: apply_logical_op_def bool_result_def py_lt_def py_le_def py_gt_def py_ge_def
      not_supported_def split: sum.splits option.splits pyval.splits)

lemma logical_errors: "logical a op b \<noteq> Inl (ExpressionEvaluationException e)"
  by (auto simp: logical_def Let_def apply_logical_op_errors split: option.splits)

lemma py_abs_errors: "py_abs args = Inl x \<Longrightarrow> \<exists>msg. x = TypeError msg"
  by (auto simp: py_abs_def split: list.splits pyval.splits)

lemma len_lambda_errors: "len_lambda P args = Inl x \<Longrightarrow> \<exists>msg. x = TypeError msg"
  by (auto simp: len_lambda_def split: list.splits)

lemma function_rule_errors:
  assumes "function_rule P name args = Inl (ExpressionEvaluationException e)"
  shows "e = NAME \<or> e = VALUE \<or> e = NA"
proof (cases "function_map P (lower name)")
  case None
  then show ?thesis using assms by (simp add: function_rule_def)
next
  case (Some f)
  then have f: "f = py_abs \<or> f = len_lambda P"
    by (auto simp: function_map_def split: if_splits)
  show ?thesis
  proof (cases "f args")
    case (Inr v)
    then show ?thesis using assms Some by (simp add: function_rule_def)
  next
    case (Inl x)
    then obtain msg where "x = TypeError msg"
      using f py_abs_errors len_lambda_errors by blast
    then show ?thesis
      using assms Some Inl by (auto simp: function_rule_def split: if_splits)
  qed
qed

lemma transform_errors_both:
  "transform P ctx t = Inl (ExpressionEvaluationException e) \<Longrightarrow>
      e \<in> {REF, NAME, VALUE, NUM, NA}"
  "transform_children P ctx ts = Inl (ExpressionEvaluationException e) \<Longrightarrow>
      e \<in> {REF, NAME, VALUE, NUM, NA}"
proof (induction P ctx t and P ctx ts rule: transform_transform_children.induct)
  case (1 P ctx val)
  then show ?case by (simp add: number_errors)
next
  case (4 P ctx name)
  then show ?case using atomic_string_errors by fastforce
next
  case (5 P ctx ta op tb)
  then show ?case by (auto simp: logical_errors split: sum.splits)
next
  case (6 P ctx ta tb)
  then show ?case by (auto split: sum.splits)
next
  case (7 P ctx ta op tb)
  then show ?case by (auto split: sum.splits dest: arithmetic_errors)
next
  case (8 P ctx name args)
  then show ?case by (auto split: sum.splits dest: function_rule_errors)
next
  case (10 P ctx t ts)
  then show ?case by (auto split: sum.splits)
qed simp_all

lemma transform_errors:
  "transform P ctx t = Inl (ExpressionEvaluationException e) \<Longrightarrow>
      e \<in> {REF, NAME, VALUE, NUM, NA}"
  by (rule transform_errors_both(1))

text \<open>
  C10. Whatever the formula, the parser and the cell, \<open>evaluate\<close> never returns the
  NULL error: a rule raises REF, NAME, VALUE, NUM or NA, and \<open>evaluate\<close> itself adds
  DIV0 only.
\<close>

theorem evaluate_never_null:
  "evaluate parse P cell expression \<noteq> ReturnsError NULL"
proof (cases "parse expression")
  case (Inl e)
  then show ?thesis by (simp add: evaluate_def)
next
  case (Inr tree)
  have "transform P cell tree \<noteq> Inl (ExpressionEvaluationException NULL)"
    using transform_errors [of P cell tree NULL] by auto
  then show ?thesis
    using Inr by (auto simp: evaluate_def split: sum.splits exn.splits)
qed

text \<open>
  C6. A number divided by the integer zero raises \<open>ZeroDivisionError\<close> in the rule
  \<open>arithmetic\<close>, not a typed error; \<open>evaluate\<close> turns it into DIV0; and no rule of
  the walk ever raises DIV0 itself.
\<close>

theorem division_by_zero:
  assumes "is_number a" and "transform P cell ta = Inr a"
    and "parse expression = Inr (Arithmetic ta ''/'' (Number ''0''))"
  shows "arithmetic P a ''/'' (PInt 0) = Inl ZeroDivisionError
         \<and> evaluate parse P cell expression = ReturnsError DIV0
         \<and> (\<forall>t. transform P cell t \<noteq> Inl (ExpressionEvaluationException DIV0))"
proof -
  have z: "number P ''0'' = Inr (PInt 0)"
    by (simp add: number_def py_int_def digits_def is_digit_def int_of_digits_def digit_val_def)
  have a: "arithmetic P a ''/'' (PInt 0) = Inl ZeroDivisionError"
    using assms(1) by (simp add: arithmetic_def truediv_int_zero)
  have "transform P cell (Arithmetic ta ''/'' (Number ''0'')) = Inl ZeroDivisionError"
    using assms(2) z a by simp
  then have e: "evaluate parse P cell expression = ReturnsError DIV0"
    using assms(3) by (simp add: evaluate_def)
  have "\<forall>t. transform P cell t \<noteq> Inl (ExpressionEvaluationException DIV0)"
    using transform_errors [of P cell _ DIV0] by auto
  with a e show ?thesis by simp
qed

theorem division_by_zero_witness:
  "is_number (PFloat (Fin (5 / 2)))
   \<and> transform exact_platform demo_cell (Number ''2.5'') = Inr (PFloat (Fin (5 / 2)))
   \<and> evaluate (\<lambda>s. Inr (Arithmetic (Number ''2.5'') ''/'' (Number ''0''))) exact_platform
       demo_cell ''=2.5/0'' = ReturnsError DIV0"
proof -
  have n: "transform exact_platform demo_cell (Number ''2.5'') = Inr (PFloat (Fin (5 / 2)))"
    by code_simp
  show ?thesis
    using n division_by_zero [of "PFloat (Fin (5 / 2))" exact_platform demo_cell
        "Number ''2.5''" "\<lambda>s. Inr (Arithmetic (Number ''2.5'') ''/'' (Number ''0''))" "''=2.5/0''"]
    by simp
qed

subsection \<open>Display text and concatenation\<close>

lemma is_integer_Ints: "is_integer x \<longleftrightarrow> x \<in> \<int>"
  by (auto simp: is_integer_def Ints_def intro: sym)

lemma trunc_integer: "x \<in> \<int> \<Longrightarrow> (if 0 \<le> x then \<lfloor>x\<rfloor> else \<lceil>x\<rceil>) = \<lfloor>x\<rfloor>"
  by (auto simp: Ints_def)

lemma to_str_display_text: "to_str P v = display_text P v"
proof (cases v)
  case (PFloat f)
  then show ?thesis
    by (cases f) (simp_all add: to_str_def display_text_def is_integer_Ints trunc_integer)
qed (simp_all add: to_str_def display_text_def)

lemma digit_chr_table: "list_all (\<lambda>d. digit_chr d \<noteq> CHR ''.'') [0..<10]"
  by code_simp

lemma digit_chr_not_dot: "d < 10 \<Longrightarrow> digit_chr d \<noteq> CHR ''.''"
  using digit_chr_table by (simp add: list_all_iff)

lemma str_nat_no_point: "CHR ''.'' \<notin> set (str_nat n)"
proof (induction n rule: str_nat.induct)
  case (1 n)
  show ?case
  proof (cases "n < 10")
    case True
    then show ?thesis using digit_chr_not_dot [of n] by (simp add: str_nat.simps [of n])
  next
    case False
    have "n mod 10 < 10" by simp
    then have "digit_chr (n mod 10) \<noteq> CHR ''.''" by (rule digit_chr_not_dot)
    then show ?thesis using False 1 by (simp add: str_nat.simps [of n])
  qed
qed

lemma str_int_no_point: "CHR ''.'' \<notin> set (str_int i)"
  by (simp add: str_int_def str_nat_no_point)

text \<open>
  C7. For all operands \<open>a\<close> and \<open>b\<close>, whatever their kind, the rule \<open>concat\<close> returns
  the display text of \<open>a\<close> followed by the display text of \<open>b\<close>, and never fails: the
  walk of \<open>a & b\<close> returns that text as soon as both operands evaluate. The display
  text of an integer-valued float has no decimal point, that of a boolean is \<open>TRUE\<close>
  or \<open>FALSE\<close>, and that of an integer, a text or \<open>None\<close> is its \<open>str\<close>.
\<close>

theorem concat_display_text:
  "concat_rule P a b = PStr (display_text P a @ display_text P b)
   \<and> (transform P ctx ta = Inr a \<and> transform P ctx tb = Inr b \<longrightarrow>
        transform P ctx (Concat ta tb) = Inr (PStr (to_str P a @ to_str P b)))
   \<and> (x \<in> \<int> \<longrightarrow> to_str P (PFloat (Fin x)) = str_int \<lfloor>x\<rfloor>
        \<and> CHR ''.'' \<notin> set (to_str P (PFloat (Fin x))))
   \<and> (x \<notin> \<int> \<longrightarrow> to_str P (PFloat (Fin x)) = float_repr P x)
   \<and> to_str P (PBool True) = ''TRUE'' \<and> to_str P (PBool False) = ''FALSE''
   \<and> to_str P (PInt i) = str_int i \<and> to_str P (PStr s) = s"
proof -
  have c: "concat_rule P a b = PStr (display_text P a @ display_text P b)"
    by (simp add: concat_rule_def to_str_display_text)
  have t: "transform P ctx ta = Inr a \<and> transform P ctx tb = Inr b \<longrightarrow>
        transform P ctx (Concat ta tb) = Inr (PStr (to_str P a @ to_str P b))"
    by (simp add: concat_rule_def)
  have f: "x \<in> \<int> \<longrightarrow> to_str P (PFloat (Fin x)) = str_int \<lfloor>x\<rfloor>
        \<and> CHR ''.'' \<notin> set (to_str P (PFloat (Fin x)))"
    by (simp add: to_str_display_text display_text_def str_int_no_point)
  have g: "x \<notin> \<int> \<longrightarrow> to_str P (PFloat (Fin x)) = float_repr P x"
    by (simp add: to_str_display_text display_text_def)
  have r: "to_str P (PBool True) = ''TRUE'' \<and> to_str P (PBool False) = ''FALSE''
       \<and> to_str P (PInt i) = str_int i \<and> to_str P (PStr s) = s"
    by (simp add: to_str_def)
  from c t f g r show ?thesis by blast
qed

theorem concat_display_text_witness:
  "transform exact_platform demo_cell (Number ''7'') = Inr (PInt 7)
   \<and> transform exact_platform demo_cell (AtomicString ''TRUE'') = Inr (PBool True)
   \<and> transform exact_platform demo_cell (Concat (Number ''7'') (AtomicString ''TRUE''))
       = Inr (PStr ''7TRUE'')
   \<and> (2 :: real) \<in> \<int> \<and> to_str exact_platform (PFloat (Fin 2)) = ''2''
   \<and> (1 / 2 :: real) \<notin> \<int> \<and> to_str exact_platform (PFloat (Fin (1 / 2))) = ''0.5''"
proof -
  have n: "transform exact_platform demo_cell (Number ''7'') = Inr (PInt 7)"
    by code_simp
  have b: "transform exact_platform demo_cell (AtomicString ''TRUE'') = Inr (PBool True)"
    by (simp add: atomic_string_def)
  have s: "str_int 2 = ''2''" "str_int 7 = ''7''" by code_simp+
  have z: "(2 :: real) \<in> \<int>" by simp
  have h: "(1 / 2 :: real) \<notin> \<int>"
  proof
    assume "(1 / 2 :: real) \<in> \<int>"
    then obtain k :: int where "(1 / 2 :: real) = of_int k" by (auto simp: Ints_def)
    then have "(1 :: real) = of_int (2 * k)" by simp
    then have "(1 :: int) = 2 * k" using of_int_eq_iff [of 1 "2 * k", where 'a = real] by simp
    then show False by presburger
  qed
  have t: "to_str exact_platform (PInt 7) = ''7''"
    "to_str exact_platform (PBool True) = ''TRUE''"
    by (simp_all add: to_str_def s)
  show ?thesis
    using n b z h s t
      concat_display_text [of exact_platform "PInt 7" "PBool True" demo_cell
        "Number ''7''" "AtomicString ''TRUE''" 2]
      concat_display_text [of exact_platform "PInt 7" "PBool True" demo_cell
        "Number ''7''" "AtomicString ''TRUE''" "1 / 2"]
    by (simp add: exact_platform_def)
qed

subsection \<open>Function calls\<close>

lemma lower_len: "lower ''len'' = ''len''" "lower ''abs'' = ''abs''"
  by code_simp+

lemma len_two_message:
  "len_lambda P [PInt 1, PInt 2] =
     Inl (TypeError ''<lambda>() takes 1 positional argument but 2 were given'')"
proof -
  have "str_nat (Suc (Suc 0)) = ''2''" by code_simp
  then show ?thesis by (simp add: len_lambda_def)
qed

lemma len_two_message_tests:
  "\<not> startswith ''<lambda>() takes 1 positional argument but 2 were given'' ''bad operand type''"
  "\<not> contains ''<lambda>() takes 1 positional argument but 2 were given'' ''takes exactly''"
  by code_simp+

lemma abs_two_message:
  "py_abs [PInt 1, PInt 2] = Inl (TypeError ''abs() takes exactly one argument (2 given)'')"
proof -
  have "str_nat (Suc (Suc 0)) = ''2''" by code_simp
  then show ?thesis by (simp add: py_abs_def)
qed

lemma abs_two_message_tests:
  "\<not> startswith ''abs() takes exactly one argument (2 given)'' ''bad operand type''"
  "contains ''abs() takes exactly one argument (2 given)'' ''takes exactly''"
  by code_simp+

lemma number_one_two: "number P ''1'' = Inr (PInt 1)" "number P ''2'' = Inr (PInt 2)"
  by (simp_all add: number_def py_int_def digits_def is_digit_def int_of_digits_def digit_val_def)

text \<open>
  C4, at the formula \<open>=len(1,2)\<close>. The function \<open>len\<close> of the registry takes one
  argument. Called with two, it raises a \<open>TypeError\<close> whose message has neither of
  the texts the rule \<open>function\<close> looks for, so the rule raises it again and \<open>evaluate\<close>
  raises it to its caller: no NA. The same call of \<open>abs\<close> does give NA.
\<close>

theorem function_len_two_arguments:
  "function_rule P ''len'' [PInt 1, PInt 2] =
     Inl (TypeError ''<lambda>() takes 1 positional argument but 2 were given'')
   \<and> transform P ctx (Function ''len'' [Number ''1'', Number ''2'']) =
     Inl (TypeError ''<lambda>() takes 1 positional argument but 2 were given'')
   \<and> evaluate (\<lambda>s. Inr (Function ''len'' [Number ''1'', Number ''2''])) P ctx ''=len(1,2)'' =
     Raises (TypeError ''<lambda>() takes 1 positional argument but 2 were given'')
   \<and> function_rule P ''abs'' [PInt 1, PInt 2] = Inl (ExpressionEvaluationException NA)"
proof -
  have f: "function_rule P ''len'' [PInt 1, PInt 2] =
     Inl (TypeError ''<lambda>() takes 1 positional argument but 2 were given'')"
    unfolding function_rule_def lower_len function_map_def
    using len_two_message [of P] len_two_message_tests by simp
  have a: "function_rule P ''abs'' [PInt 1, PInt 2] = Inl (ExpressionEvaluationException NA)"
    unfolding function_rule_def lower_len function_map_def
    using abs_two_message abs_two_message_tests by simp
  have t: "transform P ctx (Function ''len'' [Number ''1'', Number ''2'']) =
     Inl (TypeError ''<lambda>() takes 1 positional argument but 2 were given'')"
    using f by (simp add: number_one_two)
  have e: "evaluate (\<lambda>s. Inr (Function ''len'' [Number ''1'', Number ''2''])) P ctx ''=len(1,2)'' =
     Raises (TypeError ''<lambda>() takes 1 positional argument but 2 were given'')"
    unfolding evaluate_def using t by simp
  from f t e a show ?thesis by blast
qed

subsection \<open>Cell lookup\<close>

text \<open>
  C5. A reference that names a sheet the workbook does not have fails with REF. A
  reference into a sheet that exists, the one of the formula's cell or a named one, at
  a coordinate where the sheet has no cell, is the integer 0, not an error. In both
  cases the sheets are after the lookup what they were before it: no cell is created.
\<close>

theorem cell_lookup_missing:
  "(get_sheet_by_name ctx n = None \<longrightarrow>
      cell_lookup ctx (Some n, c, r) = (Inl (ExpressionEvaluationException REF), ctx))
   \<and> (coordinate_from_spreadsheet ctx (c @ r) = Some rc \<and> worksheet ctx rc = None \<longrightarrow>
      cell_lookup ctx (None, c, r) = (Inr (Plain (PInt 0)), ctx))
   \<and> (get_sheet_by_name ctx n = Some sh \<and> coordinate_from_spreadsheet ctx (c @ r) = Some rc
      \<and> sh rc = None \<longrightarrow>
      cell_lookup ctx (Some n, c, r) = (Inr (Plain (PInt 0)), ctx))"
  by (simp add: cell_lookup_def sheet_cell_def)

theorem cell_lookup_missing_witness:
  "get_sheet_by_name demo_cell ''Other'' = None
   \<and> cell_lookup demo_cell (Some ''Other'', ''C'', ''7'')
       = (Inl (ExpressionEvaluationException REF), demo_cell)
   \<and> coordinate_from_spreadsheet demo_cell (''C'' @ ''7'') = Some (6, 2)
   \<and> worksheet demo_cell (6, 2) = None
   \<and> cell_lookup demo_cell (None, ''C'', ''7'') = (Inr (Plain (PInt 0)), demo_cell)
   \<and> get_sheet_by_name demo_cell ''Sheet1'' = Some demo_sheet
   \<and> demo_sheet (6, 2) = None
   \<and> cell_lookup demo_cell (Some ''Sheet1'', ''C'', ''7'') = (Inr (Plain (PInt 0)), demo_cell)"
proof -
  have g: "get_sheet_by_name demo_cell ''Other'' = None"
    "get_sheet_by_name demo_cell ''Sheet1'' = Some demo_sheet"
    by (simp_all add: demo_cell_def)
  have k: "a1_coordinate ''C7'' = Some (6, 2)" by code_simp
  then have co: "coordinate_from_spreadsheet demo_cell (''C'' @ ''7'') = Some (6, 2)"
    by (simp add: demo_cell_def)
  have s: "demo_sheet (6, 2) = None" "worksheet demo_cell (6, 2) = None"
    by (simp_all add: demo_cell_def demo_sheet_def)
  show ?thesis
    using g co s
      cell_lookup_missing [of demo_cell "''Other''" "''C''" "''7''" "(6, 2)" demo_sheet]
      cell_lookup_missing [of demo_cell "''Sheet1''" "''C''" "''7''" "(6, 2)" demo_sheet]
    by simp
qed

subsection \<open>Exponentiation\<close>














end
